theory Spec2Isabelle
  imports Main "HOL-Library.AList" "HOL-Library.Sublist"
begin

section \<open>Data model of the Listing controller\<close>

text \<open>
  A JavaScript string is modelled as a \<^typ>\<open>string\<close>: one character per code unit, for the
  code units below 256. A JavaScript number is modelled as an \<^typ>\<open>int\<close> (page numbers,
  counts, identifiers); non-integral numbers, infinities and NaN are outside the model.
  A plain object is the list of its own entries in enumeration order; its keys are
  distinct. Reading an own key is \<^const>\<open>map_of\<close>; defining one, as an object literal and
  the spread syntax do, is \<open>AList.update\<close> (a known key keeps its position, a new key
  goes last).
\<close>

type_synonym 'v obj = "(string \<times> 'v) list"

text \<open>
  Every object of the controller is a plain one, with \<open>Object.prototype\<close> as its
  prototype: these are the names it inherits, and \<open>key in object\<close> holds for them as
  it does for the own keys.
\<close>

definition object_prototype_names :: "string list" where
  "object_prototype_names =
     [''constructor'', ''__defineGetter__'', ''__defineSetter__'', ''hasOwnProperty'',
      ''__lookupGetter__'', ''__lookupSetter__'', ''isPrototypeOf'', ''propertyIsEnumerable'',
      ''toString'', ''valueOf'', ''__proto__'', ''toLocaleString'']"

definition has_property :: "'v obj \<Rightarrow> string \<Rightarrow> bool" where
  "has_property object k \<longleftrightarrow> k \<in> set (map fst object) \<or> k \<in> set object_prototype_names"

text \<open>
  \<open>object[key] = v\<close>. An own key takes the value; a new key is added, except
  \<open>__proto__\<close>: without an own key of that name the assignment goes to the setter
  inherited from \<open>Object.prototype\<close>, which creates no key. (The setter changes the
  prototype when \<open>v\<close> is an object or \<open>null\<close>; an object whose prototype has been
  changed is outside the model.)
\<close>

definition assign :: "string \<Rightarrow> 'v \<Rightarrow> 'v obj \<Rightarrow> 'v obj" where
  "assign k v object =
     (if k = ''__proto__'' \<and> k \<notin> set (map fst object) then object
      else AList.update k v object)"

text \<open>\<open>string | number | null | undefined\<close>\<close>

datatype scalar = Null | Undefined | Str string | Num int

text \<open>\<open>string | number\<close>, the values of request parameters\<close>

datatype param = PStr string | PNum int

text \<open>
  \<open>FilterValue\<close> of \<open>types.ts\<close>: a plain scalar, or a ref-like object \<open>{ value }\<close>.
  The external cell of the legacy style is kept in the store with its content
  (\<open>Ref\<close>); \<open>Computed\<close> is the binding that \<open>parameters()\<close> creates for a key,
  whose getter and setter go to \<open>filters[key]\<close>.
\<close>

datatype filter_value = Plain scalar | Ref scalar | Computed

record ActiveFilter =
  af_key :: string
  af_label :: string
  af_rawValue :: string
  af_value :: string

text \<open>The injected transport and router are external objects, known by identity.\<close>

datatype axios = Axios nat

datatype router = Router nat

record listing =
  data :: "scalar obj list"
  isLoading :: bool
  isUpdating :: bool
  isFiltering :: bool
  isResetting :: bool
  removingFilterKey :: "string option"
  error :: "string option"
  hasLoadedOnce :: bool
  currentPage :: int
  perPage :: int
  total_count :: int
  filterValues :: "param obj"
  activeFilters :: "ActiveFilter list"
  apiPath :: "string option"
  routerInstance :: "router option"
  filterAttributes :: "filter_value obj"
  filterDefaults :: "scalar obj"
  filterVisibility :: "bool obj"
  panelOpen :: bool
  buildQueryParameters :: "(unit \<Rightarrow> string obj) option"
  errorHandler :: "(string \<Rightarrow> int option \<Rightarrow> string option) option"
  axiosInstance :: "axios option"
  filters :: "scalar obj"
  bindings :: "string list"

text \<open>The field initialisers of the class.\<close>

definition initial :: listing where
  "initial =
     \<lparr> data = [], isLoading = False, isUpdating = False, isFiltering = False,
       isResetting = False, removingFilterKey = None, error = None, hasLoadedOnce = False,
       currentPage = 1, perPage = 15, total_count = 0, filterValues = [],
       activeFilters = [], apiPath = None, routerInstance = None, filterAttributes = [],
       filterDefaults = [], filterVisibility = [], panelOpen = False,
       buildQueryParameters = None, errorHandler = None, axiosInstance = None,
       filters = [], bindings = [] \<rparr>"

section \<open>Strings\<close>

text \<open>
  White space and line terminators of ECMAScript among the code units below 256:
  TAB, LF, VT, FF, CR, SPACE and NBSP. \<open>String.prototype.trim\<close> removes them at both ends.
\<close>

definition is_space :: "char \<Rightarrow> bool" where
  "is_space c \<longleftrightarrow> of_char c \<in> {9, 10, 11, 12, 13, 32, 160 :: nat}"

definition trim :: "string \<Rightarrow> string" where
  "trim s = rev (dropWhile is_space (rev (dropWhile is_space s)))"

section \<open>Building the filter parameters\<close>

text \<open>
  The value a filter entry stands for: the entry itself when it is read from \<open>filters\<close>,
  the content of a ref-like object of the legacy store. A computed binding reads
  \<open>filters[key]\<close> and gives the empty string for \<open>null\<close> and \<open>undefined\<close>; the legacy
  store is only read when \<open>filters\<close> has no key, so that is what it gives here.
\<close>

fun actualValue :: "filter_value \<Rightarrow> scalar" where
  "actualValue (Plain v) = v"
| "actualValue (Ref v) = v"
| "actualValue Computed = Str []"

text \<open>One round of the loop of \<open>buildFilterParameters\<close>.\<close>

definition addFilterParameter :: "string \<times> scalar \<Rightarrow> param obj \<Rightarrow> param obj" where
  "addFilterParameter kv parameters =
     (case snd kv of
        Null \<Rightarrow> parameters
      | Undefined \<Rightarrow> parameters
      | Num n \<Rightarrow> assign (fst kv) (PNum n) parameters
      | Str s \<Rightarrow>
          if s = [] then parameters
          else if s = ''all'' then parameters
          else (let trimmed = trim s in
                if trimmed = [] then parameters
                else assign (fst kv) (PStr trimmed) parameters))"

text \<open>
  The entries the loop runs over, each with the value extracted from it: those of
  \<open>filters\<close> when it has a key, else those of the legacy store.
\<close>

definition filterSource :: "listing \<Rightarrow> scalar obj" where
  "filterSource st =
     (if filters st \<noteq> [] then filters st
      else map (\<lambda>(k, v). (k, actualValue v)) (filterAttributes st))"

definition buildFilterParameters :: "listing \<Rightarrow> param obj" where
  "buildFilterParameters st = fold addFilterParameter (filterSource st) []"

section \<open>Errors, responses and the collaborators\<close>

text \<open>
  A value a promise rejects with or a \<open>throw\<close> raises. \<open>Nullish\<close> is \<open>null\<close> or
  \<open>undefined\<close>; any other value is \<open>Thrown\<close> with what the code reads from it: whether it
  is an \<open>instanceof Error\<close>, its \<open>message\<close>, and its \<open>response\<close> when it has one.
\<close>

record error_response =
  status :: "int option"
  data_message :: "string option"

datatype js_error = Nullish | Thrown bool string "error_response option"

text \<open>\<open>new Error(msg)\<close>\<close>

definition Error :: "string \<Rightarrow> js_error" where
  "Error msg = Thrown True msg None"

text \<open>
  The \<open>TypeError\<close> that reading a property of \<open>null\<close> or \<open>undefined\<close> raises; the wording
  of its message belongs to the engine.
\<close>

definition TypeError_nullish :: js_error where
  "TypeError_nullish = Thrown True ''Cannot read properties of undefined'' None"

definition axios_not_configured :: string where
  "axios_not_configured =
     ''Axios instance not configured. Please either:'' @ [CHR 0x0A] @
     ''1. Pass an axios instance via listing.axios(axiosInstance), or'' @ [CHR 0x0A] @
     ''2. Set window.axios globally in your application.''"

definition api_path_missing :: string where
  "api_path_missing = ''API path must be provided either as parameter or via path() method''"

definition id_missing :: string where
  "id_missing = ''ID must be provided when calling delete(path, id)''"

definition permission_message :: string where
  "permission_message = ''You do not have permission to access this resource.''"

definition fallback_message :: string where
  "fallback_message = ''Failed to load data. Please try again later.''"

text \<open>\<open>HarmonieListingResponse\<close>, the \<open>data\<close> of a response of the transport.\<close>

record listing_payload =
  lp_items :: "scalar obj list option"
  lp_current_page :: "int option"
  lp_total :: "int option"
  lp_perPage :: "int option"

record response_data =
  rd_listing :: "listing_payload option"
  rd_filters :: "ActiveFilter list option"

text \<open>
  A value of the route query: a scalar or an array of scalars (a router gives strings,
  \<open>null\<close> and arrays of them; a caller may pass numbers).
\<close>

datatype qscalar = QNull | QUndefined | QStr string | QNum int

datatype qvalue = QScalar qscalar | QArray "qscalar list"

text \<open>The \<open>params\<close> of a fetch: a string, a mapping, or a producer without arguments.\<close>

datatype params_arg =
  ParamsString string | ParamsObject "param obj" | ParamsCallback "unit \<Rightarrow> param obj"

record get_config =
  params :: "params_arg option"
  query :: "qvalue obj option"

datatype path_or_config = PathArg string | ConfigArg get_config | NoArg

text \<open>
  What the collaborators do during one call of the controller. Every call awaits each
  of them at most once, so one reply of each kind covers every behaviour they can show.
  \<^item> \<open>window_axios\<close>: the global \<open>window.axios\<close>, if there is one;
  \<^item> \<open>route_query\<close>: what \<open>currentRoute.value.query\<close> holds when the fetch reads it
    (\<open>None\<close> when \<open>currentRoute\<close>, its \<open>value\<close> or the query is missing);
  \<^item> \<open>get_reply\<close>, \<open>delete_reply\<close>: how the promise of the transport settles;
  \<^item> \<open>URLSearchParams\<close>, \<open>Number\<close>: the functions of the platform that parse a query
    string into its entries and a string into a number (\<open>None\<close> for NaN);
  \<^item> \<open>own_method\<close>: the result of calling the controller's method of that name, if it
    has one (the reflective lookup of \<open>normalizeParams\<close>).
\<close>

record env =
  window_axios :: "axios option"
  route_query :: "qvalue obj option"
  get_reply :: "js_error + response_data"
  delete_reply :: "js_error + unit"
  URLSearchParams :: "string \<Rightarrow> (string \<times> string) list"
  Number :: "string \<Rightarrow> int option"
  own_method :: "string \<Rightarrow> (js_error + param obj) option"

text \<open>
  What a call does to its collaborators, in order. The callbacks \<open>onSuccess\<close> and
  \<open>onError\<close> are observers: a call of one is an event, and it returns normally
  without touching the controller.
\<close>

datatype event =
    TransportGet axios string "param obj"
  | TransportDelete axios string
  | RouterPush router "string obj"
  | OnSuccessCall scalar
  | OnErrorCall js_error "int option"
  | ConsoleError js_error

text \<open>How the promise of an \<open>async\<close> method settles.\<close>

datatype outcome = Resolved | Rejected js_error

section \<open>Conversions to and from strings\<close>

definition digit_char :: "nat \<Rightarrow> char" where
  "digit_char d = char_of (of_char CHR ''0'' + d)"

text \<open>The decimal digits of a natural number, written in front of \<open>acc\<close>.\<close>

fun decimal :: "nat \<Rightarrow> string \<Rightarrow> string" where
  "decimal n acc =
     (if n < 10 then digit_char n # acc
      else decimal (n div 10) (digit_char (n mod 10) # acc))"

text \<open>\<open>String(n)\<close> for an integer \<open>n\<close> (below the range where the exponent form starts).\<close>

definition String_int :: "int \<Rightarrow> string" where
  "String_int i = (if i < 0 then CHR ''-'' # decimal (nat (- i)) [] else decimal (nat i) [])"

fun String_param :: "param \<Rightarrow> string" where
  "String_param (PStr s) = s"
| "String_param (PNum n) = String_int n"

fun String_scalar :: "scalar \<Rightarrow> string" where
  "String_scalar Null = ''null''"
| "String_scalar Undefined = ''undefined''"
| "String_scalar (Str s) = s"
| "String_scalar (Num n) = String_int n"

fun String_qscalar :: "qscalar \<Rightarrow> string" where
  "String_qscalar QNull = ''null''"
| "String_qscalar QUndefined = ''undefined''"
| "String_qscalar (QStr s) = s"
| "String_qscalar (QNum n) = String_int n"

text \<open>\<open>Array.prototype.join\<close>: \<open>null\<close> and \<open>undefined\<close> elements give the empty string.\<close>

fun join_element :: "qscalar \<Rightarrow> string" where
  "join_element QNull = []"
| "join_element QUndefined = []"
| "join_element v = String_qscalar v"

fun join_comma :: "string list \<Rightarrow> string" where
  "join_comma [] = []"
| "join_comma [s] = s"
| "join_comma (s # t # ss) = s @ '','' @ join_comma (t # ss)"

fun String_qvalue :: "qvalue \<Rightarrow> string" where
  "String_qvalue (QScalar v) = String_qscalar v"
| "String_qvalue (QArray vs) = join_comma (map join_element vs)"

text \<open>
  \<open>Array.isArray(queryValue) ? String(queryValue[0]) : String(queryValue)\<close>; the first
  element of an empty array is \<open>undefined\<close>.
\<close>

fun stringValue :: "qvalue \<Rightarrow> string" where
  "stringValue (QArray []) = String_qscalar QUndefined"
| "stringValue (QArray (v # vs)) = String_qscalar v"
| "stringValue (QScalar v) = String_qscalar v"

text \<open>Truthiness of a query value: an array is an object, hence truthy.\<close>

fun truthy :: "qvalue \<Rightarrow> bool" where
  "truthy (QScalar QNull) = False"
| "truthy (QScalar QUndefined) = False"
| "truthy (QScalar (QStr s)) = (s \<noteq> [])"
| "truthy (QScalar (QNum n)) = (n \<noteq> 0)"
| "truthy (QArray vs) = True"

definition is_digit :: "char \<Rightarrow> bool" where
  "is_digit c \<longleftrightarrow> 48 \<le> (of_char c :: nat) \<and> (of_char c :: nat) \<le> 57"

definition nat_of_digits :: "string \<Rightarrow> nat" where
  "nat_of_digits ds = foldl (\<lambda>a c. 10 * a + (of_char c - 48)) 0 ds"

text \<open>
  \<open>parseInt(s, 10)\<close>: leading white space is skipped, a sign is read, then the longest
  run of decimal digits; \<open>None\<close> is NaN.
\<close>

definition parseInt :: "string \<Rightarrow> int option" where
  "parseInt s =
     (let s1 = dropWhile is_space s;
          negative = (s1 \<noteq> [] \<and> hd s1 = CHR ''-'');
          s2 = (if s1 \<noteq> [] \<and> (hd s1 = CHR ''-'' \<or> hd s1 = CHR ''+'') then tl s1 else s1);
          ds = takeWhile is_digit s2
      in if ds = [] then None
         else Some (if negative then - int (nat_of_digits ds) else int (nat_of_digits ds)))"

section \<open>The controller\<close>

subsection \<open>Configuration\<close>

definition axios_set :: "axios \<Rightarrow> listing \<Rightarrow> listing" where
  "axios_set a st = st\<lparr>axiosInstance := Some a\<rparr>"

definition path :: "string \<Rightarrow> listing \<Rightarrow> listing" where
  "path p st = st\<lparr>apiPath := Some p\<rparr>"

definition router_set :: "router \<Rightarrow> listing \<Rightarrow> listing" where
  "router_set r st = st\<lparr>routerInstance := Some r\<rparr>"

definition onLoadError :: "(string \<Rightarrow> int option \<Rightarrow> string option) \<Rightarrow> listing \<Rightarrow> listing" where
  "onLoadError handler st = st\<lparr>errorHandler := Some handler\<rparr>"

definition queryParameters :: "(unit \<Rightarrow> string obj) \<Rightarrow> listing \<Rightarrow> listing" where
  "queryParameters builder st = st\<lparr>buildQueryParameters := Some builder\<rparr>"

text \<open>
  \<open>{ ...source }\<close> laid over \<open>target\<close>: the spread syntax defines the keys. And
  \<open>Object.assign(target, source)\<close>, which assigns them.
\<close>

definition spread :: "'v obj \<Rightarrow> 'v obj \<Rightarrow> 'v obj" where
  "spread source target = fold (\<lambda>kv. AList.update (fst kv) (snd kv)) source target"

definition object_assign :: "'v obj \<Rightarrow> 'v obj \<Rightarrow> 'v obj" where
  "object_assign target source = fold (\<lambda>kv. assign (fst kv) (snd kv)) source target"

definition filterRefs :: "filter_value obj \<Rightarrow> listing \<Rightarrow> listing" where
  "filterRefs fs st =
     st\<lparr>filterAttributes := fs,
        filterDefaults := fold (\<lambda>k. assign k Null) (map fst fs) [],
        filterVisibility := fold (\<lambda>k. assign k True) (map fst fs) []\<rparr>"

definition parameters :: "scalar obj \<Rightarrow> listing \<Rightarrow> listing" where
  "parameters initials st =
     st\<lparr>filters := spread initials [],
        filterDefaults := fold (\<lambda>kv. assign (fst kv) (snd kv)) initials [],
        filterVisibility := fold (\<lambda>kv. assign (fst kv) True) initials [],
        bindings := map fst (fold (\<lambda>kv. assign (fst kv) Computed) initials []),
        filterAttributes := fold (\<lambda>kv. assign (fst kv) Computed) initials []\<rparr>"

definition defaults :: "scalar obj \<Rightarrow> listing \<Rightarrow> listing" where
  "defaults ds st =
     st\<lparr>filterDefaults :=
          fold (\<lambda>kv fd. if has_property (filterAttributes st) (fst kv)
                         then assign (fst kv) (snd kv) fd else fd)
            ds (filterDefaults st)\<rparr>"

definition setFilters :: "param obj \<Rightarrow> listing \<Rightarrow> listing" where
  "setFilters fs st = st\<lparr>filterValues := spread fs []\<rparr>"

definition clearFilters :: "listing \<Rightarrow> listing" where
  "clearFilters st = st\<lparr>filterValues := []\<rparr>"

definition closePanel :: "listing \<Rightarrow> listing" where
  "closePanel st = st\<lparr>panelOpen := False\<rparr>"

subsection \<open>Loading flags\<close>

definition loading :: "listing \<Rightarrow> listing" where
  "loading st =
     (if hasLoadedOnce st then st\<lparr>isUpdating := True, isLoading := False\<rparr>
      else st\<lparr>isLoading := True, isUpdating := False\<rparr>)"

definition loaded :: "listing \<Rightarrow> listing" where
  "loaded st = st\<lparr>isLoading := False, isUpdating := False\<rparr>"

subsection \<open>The transport in force\<close>

definition getAxios :: "listing \<Rightarrow> env \<Rightarrow> js_error + axios" where
  "getAxios st e =
     (case axiosInstance st of
        Some a \<Rightarrow> Inr a
      | None \<Rightarrow>
          (case window_axios e of
             Some a \<Rightarrow> Inr a
           | None \<Rightarrow> Inl (Error axios_not_configured)))"

subsection \<open>Normalising the params of a fetch\<close>

definition normalizeParams :: "env \<Rightarrow> params_arg option \<Rightarrow> js_error + param obj" where
  "normalizeParams e ps =
     (case ps of
        None \<Rightarrow> Inr []
      | Some (ParamsString s) \<Rightarrow>
          if s = [] then Inr []
          else if prefix ''?'' s \<or> prefix ''&'' s then
            Inr (fold (\<lambda>kv result.
                         assign (fst kv)
                           (case Number e (snd kv) of None \<Rightarrow> PStr (snd kv) | Some n \<Rightarrow> PNum n)
                           result)
                   (URLSearchParams e (if prefix ''?'' s then tl s else s)) [])
          else (case own_method e s of Some r \<Rightarrow> r | None \<Rightarrow> Inr [])
      | Some (ParamsCallback f) \<Rightarrow> Inr (f ())
      | Some (ParamsObject obj) \<Rightarrow> Inr obj)"

subsection \<open>Synchronising from the route query\<close>

text \<open>
  One round of the loop over the filter keys in \<open>get\<close>. The first test is
  \<open>key in this.filters\<close>, which also holds for a name \<open>filters\<close> inherits. In the legacy
  branch the value read is an own entry of the store: a ref-like cell is written, a
  computed binding writes \<open>filters[key]\<close>, a plain value is left alone (what the store
  inherits under a name is no ref-like object).
\<close>

definition syncFilterKey :: "qvalue obj \<Rightarrow> string \<Rightarrow> listing \<Rightarrow> listing" where
  "syncFilterKey routeQuery k st =
     (case map_of routeQuery k of
        None \<Rightarrow> st
      | Some (QScalar QUndefined) \<Rightarrow> st
      | Some (QScalar QNull) \<Rightarrow> st
      | Some queryValue \<Rightarrow>
          if k = ''status'' \<and> stringValue queryValue \<notin> set [''verified'', ''unverified''] then st
          else if has_property (filters st) k then
            st\<lparr>filters := assign k (Str (stringValue queryValue)) (filters st)\<rparr>
          else if has_property (filterAttributes st) k then
            (case map_of (filterAttributes st) k of
               Some (Ref old) \<Rightarrow>
                 st\<lparr>filterAttributes :=
                      AList.update k (Ref (Str (stringValue queryValue))) (filterAttributes st)\<rparr>
             | Some Computed \<Rightarrow>
                 st\<lparr>filters := assign k (Str (stringValue queryValue)) (filters st)\<rparr>
             | Some (Plain v) \<Rightarrow> st
             | None \<Rightarrow> st)
          else st)"

definition filterKeys :: "listing \<Rightarrow> string list" where
  "filterKeys st =
     (if filters st \<noteq> [] then map fst (filters st) else map fst (filterAttributes st))"

definition syncFilters :: "qvalue obj \<Rightarrow> listing \<Rightarrow> listing" where
  "syncFilters routeQuery st = fold (syncFilterKey routeQuery) (filterKeys st) st"

definition syncPage :: "qvalue obj \<Rightarrow> listing \<Rightarrow> listing" where
  "syncPage routeQuery st =
     (case map_of routeQuery ''page'' of
        None \<Rightarrow> st
      | Some p \<Rightarrow>
          if truthy p then
            (case parseInt (String_qvalue p) of
               None \<Rightarrow> st
             | Some page \<Rightarrow> if page > 0 then st\<lparr>currentPage := page\<rparr> else st)
          else st)"

definition syncQuery :: "qvalue obj \<Rightarrow> listing \<Rightarrow> listing" where
  "syncQuery routeQuery st =
     (if routeQuery \<noteq> [] then syncPage routeQuery (syncFilters routeQuery st) else st)"

text \<open>
  The string one round of the loop has for a key when it gets to the store, if it gets
  there.
\<close>

definition accepted :: "qvalue obj \<Rightarrow> string \<Rightarrow> string option" where
  "accepted q k =
     (case map_of q k of
        None \<Rightarrow> None
      | Some (QScalar QUndefined) \<Rightarrow> None
      | Some (QScalar QNull) \<Rightarrow> None
      | Some v \<Rightarrow>
          if k = ''status'' \<and> stringValue v \<notin> set [''verified'', ''unverified''] then None
          else Some (stringValue v))"

subsection \<open>Fetching\<close>

text \<open>The endpoint and the options a call of \<open>get\<close> acts on.\<close>

definition resolvePath :: "listing \<Rightarrow> path_or_config \<Rightarrow> string option" where
  "resolvePath st pathOrConfig =
     (case pathOrConfig of
        PathArg p \<Rightarrow> Some p
      | ConfigArg c \<Rightarrow> apiPath st
      | NoArg \<Rightarrow> apiPath st)"

definition actualConfig :: "path_or_config \<Rightarrow> get_config option \<Rightarrow> get_config option" where
  "actualConfig pathOrConfig config =
     (case pathOrConfig of
        PathArg p \<Rightarrow> config
      | ConfigArg c \<Rightarrow> Some c
      | NoArg \<Rightarrow> None)"

definition routeQueryOf :: "listing \<Rightarrow> env \<Rightarrow> get_config option \<Rightarrow> qvalue obj" where
  "routeQueryOf st e cfg =
     (case (case cfg of None \<Rightarrow> None | Some c \<Rightarrow> query c) of
        Some q \<Rightarrow> q
      | None \<Rightarrow>
          (case routerInstance st of
             None \<Rightarrow> []
           | Some r \<Rightarrow> (case route_query e of None \<Rightarrow> [] | Some q \<Rightarrow> q)))"

definition requestParameters :: "listing \<Rightarrow> param obj \<Rightarrow> param obj" where
  "requestParameters st ps =
     spread ps (spread (buildFilterParameters st)
       [(''page'', PNum (currentPage st)), (''per_page'', PNum (perPage st))])"

text \<open>
  \<open>get\<close> up to its only \<open>await\<close>: either it has thrown (the promise is rejected), or
  the request is with the transport and the rest of the body waits for the reply.
\<close>

datatype get_started = Threw js_error listing | Pending listing axios string "param obj"

definition get_begin ::
  "listing \<Rightarrow> env \<Rightarrow> path_or_config \<Rightarrow> get_config option \<Rightarrow> get_started" where
  "get_begin st e pathOrConfig config =
     (case resolvePath st pathOrConfig of
        None \<Rightarrow> Threw (Error api_path_missing) st
      | Some p \<Rightarrow>
          if p = [] then Threw (Error api_path_missing) st
          else
            (let cfg = actualConfig pathOrConfig config;
                 routeQuery = routeQueryOf st e cfg
             in case normalizeParams e (case cfg of None \<Rightarrow> None | Some c \<Rightarrow> params c) of
                  Inl err \<Rightarrow> Threw err st
                | Inr ps \<Rightarrow>
                    (let st1 = syncQuery routeQuery st;
                         st2 = (loading st1)\<lparr>error := None\<rparr>
                     in case getAxios st2 e of
                          Inl err \<Rightarrow> Threw err (loaded st2)
                        | Inr a \<Rightarrow> Pending st2 a p (requestParameters st2 ps))))"

text \<open>\<open>err instanceof Error && err.message.includes('Axios instance not configured')\<close>\<close>

fun is_configuration_error :: "js_error \<Rightarrow> bool" where
  "is_configuration_error Nullish = False"
| "is_configuration_error (Thrown is_Error msg resp) =
     (is_Error \<and> sublist ''Axios instance not configured'' msg)"

text \<open>\<open>error?.response?.status\<close>\<close>

fun statusCode :: "js_error \<Rightarrow> int option" where
  "statusCode Nullish = None"
| "statusCode (Thrown is_Error msg None) = None"
| "statusCode (Thrown is_Error msg (Some r)) = status r"

text \<open>\<open>axiosError.response?.data?.message || fallback\<close>: an empty message is falsy.\<close>

fun serverMessage :: "js_error \<Rightarrow> string" where
  "serverMessage (Thrown is_Error msg (Some r)) =
     (case data_message r of
        None \<Rightarrow> fallback_message
      | Some m \<Rightarrow> if m = [] then fallback_message else m)"
| "serverMessage err = fallback_message"

definition defaultError :: "js_error \<Rightarrow> string" where
  "defaultError err =
     (if statusCode err = Some 403 then permission_message else serverMessage err)"

text \<open>
  The rest of the body of \<open>get\<close>, run when the promise of the transport settles, on the
  state the controller has by then. The \<open>catch\<close> block reads \<open>axiosError.response\<close>
  without a guard, which raises for \<open>null\<close> and \<open>undefined\<close>.
\<close>

definition get_settle ::
  "listing \<Rightarrow> js_error + response_data \<Rightarrow> outcome \<times> listing \<times> event list" where
  "get_settle st reply =
     (case reply of
        Inr response \<Rightarrow>
          (let l = (case rd_listing response of
                      None \<Rightarrow> \<lparr>lp_items = None, lp_current_page = None, lp_total = None,
                                lp_perPage = None\<rparr>
                    | Some l \<Rightarrow> l)
           in (Resolved,
               loaded (st\<lparr>data := (case lp_items l of None \<Rightarrow> [] | Some xs \<Rightarrow> xs),
                          currentPage := (case lp_current_page l of None \<Rightarrow> 1 | Some n \<Rightarrow> n),
                          total_count := (case lp_total l of None \<Rightarrow> 0 | Some n \<Rightarrow> n),
                          perPage := (case lp_perPage l of None \<Rightarrow> 15 | Some n \<Rightarrow> n),
                          activeFilters := (case rd_filters response of None \<Rightarrow> [] | Some fs \<Rightarrow> fs),
                          hasLoadedOnce := True\<rparr>),
               []))
      | Inl err \<Rightarrow>
          if is_configuration_error err then (Rejected err, loaded st, [])
          else if err = Nullish then (Rejected TypeError_nullish, loaded st, [])
          else
            (Resolved,
             loaded (st\<lparr>error := (case errorHandler st of
                                     Some handler \<Rightarrow> handler (defaultError err) (statusCode err)
                                   | None \<Rightarrow> Some (defaultError err))\<rparr>),
             [ConsoleError err]))"

text \<open>A whole call of \<open>get\<close>, with the reply of the transport taken from the environment.\<close>

definition get ::
  "listing \<Rightarrow> env \<Rightarrow> path_or_config \<Rightarrow> get_config option \<Rightarrow> outcome \<times> listing \<times> event list" where
  "get st e pathOrConfig config =
     (case get_begin st e pathOrConfig config of
        Threw err st' \<Rightarrow> (Rejected err, st', [])
      | Pending st' a p ps \<Rightarrow>
          (case get_settle st' (get_reply e) of
             (r, st'', evs) \<Rightarrow> (r, st'', TransportGet a p ps # evs)))"

subsection \<open>Removing, paging and the URL\<close>

text \<open>\<open>item[key]\<close>: a missing property reads as \<open>undefined\<close>.\<close>

definition property :: "scalar obj \<Rightarrow> string \<Rightarrow> scalar" where
  "property item k = (case map_of item k of None \<Rightarrow> Undefined | Some v \<Rightarrow> v)"

definition remove :: "scalar \<Rightarrow> string \<Rightarrow> listing \<Rightarrow> listing" where
  "remove ident k st =
     st\<lparr>data := filter (\<lambda>item. property item k \<noteq> ident) (data st),
        total_count := max 0 (total_count st - 1)\<rparr>"

text \<open>
  \<open>updateUrl\<close>: the query pushed to the router, if there is a router. A rejection of
  \<open>push\<close> is swallowed, and the controller is not changed.
\<close>

definition urlQuery :: "listing \<Rightarrow> string obj" where
  "urlQuery st =
     (case buildQueryParameters st of
        Some builder \<Rightarrow> object_assign [] (builder ())
      | None \<Rightarrow>
          fold (\<lambda>kv. assign (fst kv) (String_param (snd kv))) (buildFilterParameters st)
            (if currentPage st > 1 then [(''page'', String_int (currentPage st))] else []))"

definition updateUrl :: "listing \<Rightarrow> event list" where
  "updateUrl st =
     (case routerInstance st of
        None \<Rightarrow> []
      | Some r \<Rightarrow> [RouterPush r (urlQuery st)])"

definition setPage :: "int \<Rightarrow> int option \<Rightarrow> listing \<Rightarrow> listing" where
  "setPage page pp st =
     st\<lparr>currentPage := page, perPage := (case pp of None \<Rightarrow> perPage st | Some n \<Rightarrow> n)\<rparr>"

definition goToPage ::
  "listing \<Rightarrow> env \<Rightarrow> int \<Rightarrow> int option \<Rightarrow> bool option \<Rightarrow> outcome \<times> listing \<times> event list" where
  "goToPage st e page pp autoLoad =
     (let st1 = setPage page pp st;
          shouldAutoLoad = (autoLoad \<noteq> Some False \<and> (apiPath st1 \<noteq> None \<or> routerInstance st1 \<noteq> None))
      in if shouldAutoLoad then
           (case get st1 e NoArg None of
              (r, st2, evs) \<Rightarrow> (r, st2, updateUrl st1 @ evs))
         else (Resolved, st1, []))"

subsection \<open>Deleting\<close>

record delete_config =
  key :: "string option"
  refresh :: "bool option"
  onSuccess :: bool
  onError :: bool

record delete_config_id = delete_config +
  ident :: scalar

datatype delete_target = DeletePath string | DeleteObject delete_config_id

datatype id_or_config = IdArg scalar | IdObject delete_config_id

text \<open>What the three call shapes resolve to.\<close>

record delete_call =
  dc_path :: string
  dc_id :: scalar
  dc_key :: string
  dc_refresh :: bool
  dc_onSuccess :: bool
  dc_onError :: bool

definition delete_call_of :: "string \<Rightarrow> scalar \<Rightarrow> 'a delete_config_scheme \<Rightarrow> delete_call" where
  "delete_call_of p i c =
     \<lparr>dc_path = p, dc_id = i,
      dc_key = (case key c of None \<Rightarrow> ''id'' | Some k \<Rightarrow> k),
      dc_refresh = (case refresh c of None \<Rightarrow> True | Some b \<Rightarrow> b),
      dc_onSuccess = onSuccess c, dc_onError = onError c\<rparr>"

definition no_delete_config :: delete_config where
  "no_delete_config = \<lparr>key = None, refresh = None, onSuccess = False, onError = False\<rparr>"

definition delete_args ::
  "listing \<Rightarrow> delete_target \<Rightarrow> id_or_config \<Rightarrow> delete_config option \<Rightarrow> js_error + delete_call" where
  "delete_args st pathOrConfig idOrConfig maybeConfig =
     (case pathOrConfig of
        DeletePath p \<Rightarrow>
          (case idOrConfig of
             IdObject c \<Rightarrow> Inr (delete_call_of p (ident c) c)
           | IdArg Undefined \<Rightarrow> Inl (Error id_missing)
           | IdArg Null \<Rightarrow> Inl (Error id_missing)
           | IdArg i \<Rightarrow>
               Inr (delete_call_of p i
                      (case maybeConfig of None \<Rightarrow> no_delete_config | Some c \<Rightarrow> c)))
      | DeleteObject c \<Rightarrow>
          (case apiPath st of
             None \<Rightarrow> Inl (Error api_path_missing)
           | Some base \<Rightarrow>
               if base = [] then Inl (Error api_path_missing)
               else Inr (delete_call_of (base @ ''/'' @ String_scalar (ident c)) (ident c) c)))"

text \<open>
  The \<open>try\<close> block of \<open>delete\<close>: the error it ends with, if any, the controller and the
  events.
\<close>

definition delete_try :: "listing \<Rightarrow> env \<Rightarrow> delete_call \<Rightarrow> js_error option \<times> listing \<times> event list" where
  "delete_try st e c =
     (case getAxios st e of
        Inl err \<Rightarrow> (Some err, st, [])
      | Inr a \<Rightarrow>
          (case delete_reply e of
             Inl err \<Rightarrow> (Some err, st, [TransportDelete a (dc_path c)])
           | Inr u \<Rightarrow>
               (let evs = TransportDelete a (dc_path c) #
                          (if dc_onSuccess c then [OnSuccessCall (dc_id c)] else []);
                    st1 = remove (dc_id c) (dc_key c) st
                in case (if data st1 = [] \<and> currentPage st1 > 1
                         then goToPage st1 e (currentPage st1 - 1) None None
                         else if dc_refresh c then get st1 e NoArg None
                         else (Resolved, st1, [])) of
                     (Resolved, st2, evs2) \<Rightarrow> (None, st2, evs @ evs2)
                   | (Rejected err, st2, evs2) \<Rightarrow> (Some err, st2, evs @ evs2))))"

definition delete ::
  "listing \<Rightarrow> env \<Rightarrow> delete_target \<Rightarrow> id_or_config \<Rightarrow> delete_config option
     \<Rightarrow> outcome \<times> listing \<times> event list" where
  "delete st e pathOrConfig idOrConfig maybeConfig =
     (case delete_args st pathOrConfig idOrConfig maybeConfig of
        Inl err \<Rightarrow> (Rejected err, st, [])
      | Inr c \<Rightarrow>
          (case delete_try st e c of
             (None, st', evs) \<Rightarrow> (Resolved, st', evs)
           | (Some err, st', evs) \<Rightarrow>
               if dc_onError c then (Resolved, st', evs @ [OnErrorCall err (statusCode err)])
               else (Rejected err, st', evs)))"

subsection \<open>Resetting\<close>

definition reset :: "listing \<Rightarrow> listing" where
  "reset st =
     (loaded (st\<lparr>data := []\<rparr>))
       \<lparr>error := None, currentPage := 1, perPage := 15, total_count := 0,
        filterValues := [], activeFilters := []\<rparr>"

subsection \<open>Runs of the controller\<close>

text \<open>
  The synchronous segments the methods of the class are made of. A run is any sequence
  of them from the initial controller: between the start of a fetch and the moment its
  reply arrives, other segments may run, those of another fetch among them. The
  methods not given above (\<open>resetFilters\<close>, \<open>removeFilter\<close>, \<open>applyFilters\<close>, the panel and
  visibility helpers, the bindings) are sequences of \<open>SetPage\<close>, the two halves of a
  fetch, and plain writes to one field: a phase flag, the panel flag, the visibility of
  a key, a value of \<open>filters\<close>, the content of an external cell.
\<close>

datatype action =
    SetPath string
  | SetAxios axios
  | SetRouter router
  | SetOnLoadError "string \<Rightarrow> int option \<Rightarrow> string option"
  | SetQueryParameters "unit \<Rightarrow> string obj"
  | SetFilterRefs "filter_value obj"
  | SetParameters "scalar obj"
  | SetDefaults "scalar obj"
  | SetFilters "param obj"
  | ClearFilters
  | Loading
  | Loaded
  | Reset
  | Remove scalar string
  | SetPage int "int option"
  | FetchBegin env path_or_config "get_config option"
  | FetchSettle "js_error + response_data"
  | WriteFiltering bool
  | WriteResetting bool
  | WriteRemovingFilterKey "string option"
  | WritePanel bool
  | WriteVisibility string bool
  | WriteFilter string scalar
  | WriteCell string scalar

fun started_state :: "get_started \<Rightarrow> listing" where
  "started_state (Threw err st) = st"
| "started_state (Pending st a p ps) = st"

fun is_pending :: "get_started \<Rightarrow> bool" where
  "is_pending (Threw err st) = False"
| "is_pending (Pending st a p ps) = True"

fun perform :: "action \<Rightarrow> listing \<Rightarrow> listing" where
  "perform (SetPath p) st = path p st"
| "perform (SetAxios a) st = axios_set a st"
| "perform (SetRouter r) st = router_set r st"
| "perform (SetOnLoadError h) st = onLoadError h st"
| "perform (SetQueryParameters b) st = queryParameters b st"
| "perform (SetFilterRefs fs) st = filterRefs fs st"
| "perform (SetParameters ps) st = parameters ps st"
| "perform (SetDefaults ds) st = defaults ds st"
| "perform (SetFilters fs) st = setFilters fs st"
| "perform ClearFilters st = clearFilters st"
| "perform Loading st = loading st"
| "perform Loaded st = loaded st"
| "perform Reset st = reset st"
| "perform (Remove i k) st = remove i k st"
| "perform (SetPage page pp) st = setPage page pp st"
| "perform (FetchBegin e a c) st = started_state (get_begin st e a c)"
| "perform (FetchSettle reply) st = fst (snd (get_settle st reply))"
| "perform (WriteFiltering b) st = st\<lparr>isFiltering := b\<rparr>"
| "perform (WriteResetting b) st = st\<lparr>isResetting := b\<rparr>"
| "perform (WriteRemovingFilterKey k) st = st\<lparr>removingFilterKey := k\<rparr>"
| "perform (WritePanel b) st = st\<lparr>panelOpen := b\<rparr>"
| "perform (WriteVisibility k b) st = st\<lparr>filterVisibility := assign k b (filterVisibility st)\<rparr>"
| "perform (WriteFilter k v) st = st\<lparr>filters := assign k v (filters st)\<rparr>"
| "perform (WriteCell k v) st = st\<lparr>filterAttributes := AList.update k (Ref v) (filterAttributes st)\<rparr>"

definition run :: "action list \<Rightarrow> listing" where
  "run acts = fold perform acts initial"

text \<open>A fetch has completed successfully in the run: the transport answered one.\<close>

fun is_success :: "action \<Rightarrow> bool" where
  "is_success (FetchSettle (Inr response)) = True"
| "is_success a = False"

text \<open>The segments that write \<open>isLoading\<close> or \<open>isUpdating\<close>.\<close>

fun touches_flags :: "action \<Rightarrow> bool" where
  "touches_flags Loading = True"
| "touches_flags Loaded = True"
| "touches_flags Reset = True"
| "touches_flags (FetchBegin e a c) = True"
| "touches_flags (FetchSettle reply) = True"
| "touches_flags a = False"

subsection \<open>Collaborators of the examples\<close>

text \<open>
  A transport that answers one item on page 1, as in the tests; no global transport,
  no route. The platform functions are not reached by the examples.
\<close>

definition one_item_response :: response_data where
  "one_item_response =
     \<lparr>rd_listing = Some \<lparr>lp_items = Some [[(''id'', Num 1)]], lp_current_page = Some 1,
                          lp_total = Some 1, lp_perPage = Some 15\<rparr>,
      rd_filters = Some []\<rparr>"

definition answering :: "js_error + response_data \<Rightarrow> env" where
  "answering reply =
     \<lparr>window_axios = None, route_query = None, get_reply = reply, delete_reply = Inr (),
      URLSearchParams = (\<lambda>s. []), Number = (\<lambda>s. None), own_method = (\<lambda>s. None)\<rparr>"

text \<open>A controller with an endpoint and a transport.\<close>

definition configured :: listing where
  "configured = axios_set (Axios 0) (path ''/api/items'' initial)"

section \<open>Properties\<close>

subsection \<open>Assignments to an object\<close>

lemma map_of_assign:
  "map_of (assign k v al) k' =
     (if k' = k \<and> (k \<noteq> ''__proto__'' \<or> map_of al k \<noteq> None) then Some v else map_of al k')"
  by (auto simp: assign_def update_conv' map_of_eq_None_iff)

lemma distinct_assign:
  "distinct (map fst al) \<Longrightarrow> distinct (map fst (assign k v al))"
  by (simp add: assign_def distinct_update)


subsection \<open>Filter parameters\<close>


lemma addFilterParameter_distinct:
  "distinct (map fst acc) \<Longrightarrow> distinct (map fst (addFilterParameter kv acc))"
  by (auto simp: addFilterParameter_def distinct_assign Let_def split: scalar.splits)


lemma fold_addFilterParameter_distinct:
  "distinct (map fst acc) \<Longrightarrow> distinct (map fst (fold addFilterParameter kvs acc))"
  by (induction kvs arbitrary: acc) (simp_all add: addFilterParameter_distinct)





lemma buildFilterParameters_distinct:
  "distinct (map fst (buildFilterParameters st))"
  unfolding buildFilterParameters_def by (rule fold_addFilterParameter_distinct) simp

lemma buildFilterParameters_no_proto:
  "map_of (buildFilterParameters st) ''__proto__'' = None"
proof -
  have "map_of acc ''__proto__'' = None \<Longrightarrow>
      map_of (fold addFilterParameter kvs acc) ''__proto__'' = None" for kvs acc
  proof (induction kvs arbitrary: acc)
    case Nil
    then show ?case by simp
  next
    case (Cons kv kvs)
    from Cons.prems have "map_of (addFilterParameter kv acc) ''__proto__'' = None"
      by (cases kv) (auto simp: addFilterParameter_def map_of_assign Let_def split: scalar.splits)
    from Cons.IH [OF this] show ?case by simp
  qed
  then show ?thesis by (simp add: buildFilterParameters_def)
qed




subsection \<open>The round trip through a query string\<close>

lemma fold_assign_lookup:
  assumes "distinct (map fst xs)" and "map_of xs ''__proto__'' = None"
  shows "map_of (fold (\<lambda>kv result. assign (fst kv) (f (snd kv)) result) xs acc) k =
           (case map_of xs k of None \<Rightarrow> map_of acc k | Some v \<Rightarrow> Some (f v))"
  using assms
proof (induction xs arbitrary: acc)
  case Nil
  show ?case by simp
next
  case (Cons kv xs)
  obtain k' v' where kv: "kv = (k', v')" by (cases kv)
  from Cons.prems kv have d: "distinct (map fst xs)" and fresh: "k' \<notin> fst ` set xs"
    and np: "map_of xs ''__proto__'' = None" and ne: "k' \<noteq> ''__proto__''"
    by (auto split: if_splits)
  from fresh have none: "map_of xs k' = None" by (simp add: map_of_eq_None_iff)
  from Cons.IH [OF d np, of "assign k' (f v') acc"] none ne show ?case
    by (auto simp: kv map_of_assign split: option.splits)
qed

lemma map_of_stringified:
  "map_of (map (\<lambda>kv. (fst kv, g (snd kv))) xs) k = map_option g (map_of xs k)"
  by (induction xs) auto

text \<open>
  C9. Let \<open>s\<close> be a serialisation of what \<open>buildFilterParameters\<close> returns: a string the
  platform's \<open>URLSearchParams\<close> parses into those keys with their values stringified.
  Let the platform's \<open>Number\<close> read the numbers among the values back from their
  strings. Then \<open>normalizeParams\<close> of the string \<open>?\<close> followed by \<open>s\<close> returns a mapping
  with the same keys, in which a number is the same number, and a string is the same
  string unless \<open>Number\<close> reads a number from it, in which case it is that number.
\<close>

theorem query_string_round_trip:
  assumes "URLSearchParams e s =
             map (\<lambda>kv. (fst kv, String_param (snd kv))) (buildFilterParameters st)"
    and "\<forall>k n. map_of (buildFilterParameters st) k = Some (PNum n) \<longrightarrow>
               Number e (String_int n) = Some n"
  shows "\<exists>result. normalizeParams e (Some (ParamsString (''?'' @ s))) = Inr result \<and>
           (\<forall>k. map_of result k =
              (case map_of (buildFilterParameters st) k of
                 None \<Rightarrow> None
               | Some (PNum n) \<Rightarrow> Some (PNum n)
               | Some (PStr x) \<Rightarrow>
                   (case Number e x of None \<Rightarrow> Some (PStr x) | Some n \<Rightarrow> Some (PNum n))))"
proof -
  let ?entries = "map (\<lambda>kv. (fst kv, String_param (snd kv))) (buildFilterParameters st)"
  let ?coerce = "\<lambda>x. case Number e x of None \<Rightarrow> PStr x | Some n \<Rightarrow> PNum n"
  let ?result = "fold (\<lambda>kv result. assign (fst kv) (?coerce (snd kv)) result) ?entries []"
  have parsed: "normalizeParams e (Some (ParamsString (''?'' @ s))) = Inr ?result"
    using assms(1) by (simp add: normalizeParams_def)
  have d: "distinct (map fst ?entries)"
    using buildFilterParameters_distinct [of st] by (simp add: comp_def)
  have np: "map_of ?entries ''__proto__'' = None"
    by (simp add: map_of_stringified buildFilterParameters_no_proto)
  have "map_of ?result k =
      (case map_of (buildFilterParameters st) k of
         None \<Rightarrow> None
       | Some (PNum n) \<Rightarrow> Some (PNum n)
       | Some (PStr x) \<Rightarrow>
           (case Number e x of None \<Rightarrow> Some (PStr x) | Some n \<Rightarrow> Some (PNum n)))" for k
    using fold_assign_lookup [OF d np, of ?coerce "[]" k] assms(2)
    by (auto simp: map_of_stringified split: option.splits param.splits)
  with parsed show ?thesis by blast
qed

theorem query_string_round_trip_witness:
  "URLSearchParams
      ((answering (Inl Nullish))
         \<lparr>URLSearchParams := (\<lambda>s. if s = ''search=red+shoes&min=5&zip=007''
                                    then [(''search'', ''red shoes''), (''min'', ''5''), (''zip'', ''007'')]
                                    else []),
          Number := (\<lambda>x. if x = ''5'' then Some 5 else if x = ''007'' then Some 7 else None)\<rparr>)
      ''search=red+shoes&min=5&zip=007''
     = map (\<lambda>kv. (fst kv, String_param (snd kv)))
         (buildFilterParameters
            (initial\<lparr>filters := [(''search'', Str '' red shoes ''), (''min'', Num 5),
                                 (''zip'', Str ''007''), (''status'', Str ''all'')]\<rparr>)) \<and>
   normalizeParams
      ((answering (Inl Nullish))
         \<lparr>URLSearchParams := (\<lambda>s. if s = ''search=red+shoes&min=5&zip=007''
                                    then [(''search'', ''red shoes''), (''min'', ''5''), (''zip'', ''007'')]
                                    else []),
          Number := (\<lambda>x. if x = ''5'' then Some 5 else if x = ''007'' then Some 7 else None)\<rparr>)
      (Some (ParamsString ''?search=red+shoes&min=5&zip=007''))
     = Inr [(''search'', PStr ''red shoes''), (''min'', PNum 5), (''zip'', PNum 7)]"
proof -
  let ?e = "(answering (Inl Nullish))
         \<lparr>URLSearchParams := (\<lambda>s. if s = ''search=red+shoes&min=5&zip=007''
                                    then [(''search'', ''red shoes''), (''min'', ''5''), (''zip'', ''007'')]
                                    else []),
          Number := (\<lambda>x. if x = ''5'' then Some 5 else if x = ''007'' then Some 7 else None)\<rparr>"
  let ?st = "initial\<lparr>filters := [(''search'', Str '' red shoes ''), (''min'', Num 5),
                                 (''zip'', Str ''007''), (''status'', Str ''all'')]\<rparr>"
  have built: "buildFilterParameters ?st
      = [(''search'', PStr ''red shoes''), (''min'', PNum 5), (''zip'', PStr ''007'')]"
    by (simp add: buildFilterParameters_def filterSource_def addFilterParameter_def assign_def
          initial_def trim_def is_space_def)
  have five: "String_int 5 = ''5''"
    by code_simp
  have h1: "URLSearchParams ?e ''search=red+shoes&min=5&zip=007''
      = map (\<lambda>kv. (fst kv, String_param (snd kv))) (buildFilterParameters ?st)"
    by (simp add: built five answering_def)
  have h2: "\<forall>k n. map_of (buildFilterParameters ?st) k = Some (PNum n) \<longrightarrow>
               Number ?e (String_int n) = Some n"
    by (auto simp: built five answering_def split: if_splits)
  from query_string_round_trip [OF h1 h2] h1 show ?thesis
    by (simp add: normalizeParams_def assign_def answering_def built five)
qed

subsection \<open>What the query synchronisation leaves alone\<close>

lemma syncFilterKey_accepted:
  "syncFilterKey q k st =
     (case accepted q k of
        None \<Rightarrow> st
      | Some s \<Rightarrow>
          if has_property (filters st) k then st\<lparr>filters := assign k (Str s) (filters st)\<rparr>
          else if has_property (filterAttributes st) k then
            (case map_of (filterAttributes st) k of
               Some (Ref old) \<Rightarrow>
                 st\<lparr>filterAttributes := AList.update k (Ref (Str s)) (filterAttributes st)\<rparr>
             | Some Computed \<Rightarrow> st\<lparr>filters := assign k (Str s) (filters st)\<rparr>
             | Some (Plain v) \<Rightarrow> st
             | None \<Rightarrow> st)
          else st)"
proof (cases "map_of q k")
  case None
  then show ?thesis by (simp add: syncFilterKey_def accepted_def)
next
  case (Some v)
  show ?thesis
  proof (cases v)
    case (QArray vs)
    then show ?thesis
      by (cases vs)
         (simp_all add: syncFilterKey_def accepted_def Some
            split: option.splits filter_value.splits)
  next
    case (QScalar x)
    then show ?thesis
      by (cases x)
         (simp_all add: syncFilterKey_def accepted_def Some
            split: option.splits filter_value.splits)
  qed
qed

lemma syncFilterKey_frame:
  "syncFilterKey q k st =
     st\<lparr>filters := filters (syncFilterKey q k st),
        filterAttributes := filterAttributes (syncFilterKey q k st)\<rparr>"
  by (simp add: syncFilterKey_accepted split: option.splits filter_value.splits)

lemma fold_syncFilterKey_frame:
  "fold (syncFilterKey q) ks st =
     st\<lparr>filters := filters (fold (syncFilterKey q) ks st),
        filterAttributes := filterAttributes (fold (syncFilterKey q) ks st)\<rparr>"
proof (induction ks arbitrary: st)
  case Nil
  show ?case by simp
next
  case (Cons k ks)
  have "fold (syncFilterKey q) (k # ks) st = fold (syncFilterKey q) ks (syncFilterKey q k st)"
    by simp
  also have "\<dots> = (syncFilterKey q k st)
      \<lparr>filters := filters (fold (syncFilterKey q) (k # ks) st),
       filterAttributes := filterAttributes (fold (syncFilterKey q) (k # ks) st)\<rparr>"
    using Cons.IH [of "syncFilterKey q k st"] by simp
  also have "\<dots> = st
      \<lparr>filters := filters (fold (syncFilterKey q) (k # ks) st),
       filterAttributes := filterAttributes (fold (syncFilterKey q) (k # ks) st)\<rparr>"
    by (subst syncFilterKey_frame) simp
  finally show ?case .
qed

lemma syncQuery_frame:
  "syncQuery q st =
     st\<lparr>filters := filters (syncQuery q st),
        filterAttributes := filterAttributes (syncQuery q st),
        currentPage := currentPage (syncQuery q st)\<rparr>"
proof -
  have p: "syncPage q s = s\<lparr>currentPage := currentPage (syncPage q s)\<rparr>" for s
    by (simp add: syncPage_def split: option.splits)
  have f: "syncFilters q st =
     st\<lparr>filters := filters (syncFilters q st),
        filterAttributes := filterAttributes (syncFilters q st)\<rparr>"
    unfolding syncFilters_def by (rule fold_syncFilterKey_frame)
  show ?thesis
  proof (cases "q = []")
    case True
    then show ?thesis by (simp add: syncQuery_def)
  next
    case False
    have "syncQuery q st = syncPage q (syncFilters q st)"
      using False by (simp add: syncQuery_def)
    also have "\<dots> = (syncFilters q st)\<lparr>currentPage := currentPage (syncQuery q st)\<rparr>"
      using False by (subst p) (simp add: syncQuery_def)
    also have "\<dots> = st\<lparr>filters := filters (syncFilters q st),
        filterAttributes := filterAttributes (syncFilters q st),
        currentPage := currentPage (syncQuery q st)\<rparr>"
      by (subst f) simp
    also have "filters (syncFilters q st) = filters (syncQuery q st)"
      using False by (simp add: syncQuery_def syncPage_def split: option.splits)
    also have "filterAttributes (syncFilters q st) = filterAttributes (syncQuery q st)"
      using False by (simp add: syncQuery_def syncPage_def split: option.splits)
    finally show ?thesis .
  qed
qed

lemma syncQuery_keeps:
  "hasLoadedOnce (syncQuery q st) = hasLoadedOnce st"
  "isLoading (syncQuery q st) = isLoading st"
  "isUpdating (syncQuery q st) = isUpdating st"
  "data (syncQuery q st) = data st"
  "total_count (syncQuery q st) = total_count st"
  "perPage (syncQuery q st) = perPage st"
  "axiosInstance (syncQuery q st) = axiosInstance st"
  "errorHandler (syncQuery q st) = errorHandler st"
  "apiPath (syncQuery q st) = apiPath st"
  "routerInstance (syncQuery q st) = routerInstance st"
  by (subst syncQuery_frame, simp)+

subsection \<open>The loading flags\<close>

lemma loading_fields:
  "isLoading (loading st) = (\<not> hasLoadedOnce st)"
  "isUpdating (loading st) = hasLoadedOnce st"
  "hasLoadedOnce (loading st) = hasLoadedOnce st"
  "data (loading st) = data st"
  "total_count (loading st) = total_count st"
  "currentPage (loading st) = currentPage st"
  "perPage (loading st) = perPage st"
  "filters (loading st) = filters st"
  "filterAttributes (loading st) = filterAttributes st"
  "axiosInstance (loading st) = axiosInstance st"
  "errorHandler (loading st) = errorHandler st"
  "apiPath (loading st) = apiPath st"
  "routerInstance (loading st) = routerInstance st"
  by (simp_all add: loading_def)

lemma loaded_fields:
  "isLoading (loaded st) = False"
  "isUpdating (loaded st) = False"
  "hasLoadedOnce (loaded st) = hasLoadedOnce st"
  "data (loaded st) = data st"
  "total_count (loaded st) = total_count st"
  "currentPage (loaded st) = currentPage st"
  "perPage (loaded st) = perPage st"
  "error (loaded st) = error st"
  "filters (loaded st) = filters st"
  "filterAttributes (loaded st) = filterAttributes st"
  "axiosInstance (loaded st) = axiosInstance st"
  "errorHandler (loaded st) = errorHandler st"
  "apiPath (loaded st) = apiPath st"
  "routerInstance (loaded st) = routerInstance st"
  by (simp_all add: loaded_def)

subsection \<open>The two halves of a fetch\<close>

text \<open>
  The error \<open>getAxios\<close> throws is one the \<open>catch\<close> block of \<open>get\<close> throws again.
\<close>

lemma getAxios_error_rethrown:
  "is_configuration_error (Error axios_not_configured)"
  by (simp add: Error_def axios_not_configured_def sublist_Cons_right)


lemma get_begin_Pending:
  assumes "get_begin st e a c = Pending s ax p ps"
  shows "\<exists>ps0. s = (loading (syncQuery (routeQueryOf st e (actualConfig a c)) st))\<lparr>error := None\<rparr>
           \<and> resolvePath st a = Some p \<and> p \<noteq> []
           \<and> normalizeParams e (case actualConfig a c of None \<Rightarrow> None | Some cfg \<Rightarrow> params cfg) = Inr ps0
           \<and> getAxios s e = Inr ax \<and> ps = requestParameters s ps0"
  using assms
  by (auto simp: get_begin_def Let_def split: option.splits if_splits sum.splits)

lemma get_begin_Threw:
  assumes "get_begin st e a c = Threw err s"
  shows "s = st \<or>
         s = loaded ((loading (syncQuery (routeQueryOf st e (actualConfig a c)) st))\<lparr>error := None\<rparr>)"
  using assms
  by (auto simp: get_begin_def Let_def split: option.splits if_splits sum.splits)

lemma get_begin_hasLoadedOnce:
  "hasLoadedOnce (started_state (get_begin st e a c)) = hasLoadedOnce st"
proof (cases "get_begin st e a c")
  case (Threw err s)
  from get_begin_Threw [OF Threw] show ?thesis
    by (auto simp: Threw loaded_fields loading_fields syncQuery_keeps)
next
  case (Pending s ax p ps)
  from get_begin_Pending [OF Pending] show ?thesis
    by (auto simp: Pending loading_fields syncQuery_keeps)
qed

lemma get_settle_hasLoadedOnce:
  "hasLoadedOnce (fst (snd (get_settle st reply))) = (hasLoadedOnce st \<or> \<not> isl reply)"
  by (cases reply) (simp_all add: get_settle_def loaded_def Let_def)

lemma get_settle_flags:
  "\<not> isLoading (fst (snd (get_settle st reply)))"
  "\<not> isUpdating (fst (snd (get_settle st reply)))"
  by (cases reply; simp add: get_settle_def loaded_def Let_def)+

lemma get_begin_flags:
  "\<not> (isLoading st \<and> isUpdating st) \<Longrightarrow>
     \<not> (isLoading (started_state (get_begin st e a c)) \<and>
        isUpdating (started_state (get_begin st e a c)))"
proof (cases "get_begin st e a c")
  case (Threw err s)
  assume "\<not> (isLoading st \<and> isUpdating st)"
  with get_begin_Threw [OF Threw] show ?thesis
    by (auto simp: Threw loaded_fields)
next
  case (Pending s ax p ps)
  from get_begin_Pending [OF Pending] show ?thesis
    by (auto simp: Pending loading_fields)
qed

lemma get_Threw:
  "get_begin st e a c = Threw err s \<Longrightarrow> get st e a c = (Rejected err, s, [])"
  by (simp add: get_def)

lemma get_Pending:
  "get_begin st e a c = Pending s ax p ps \<Longrightarrow>
     get st e a c =
       (fst (get_settle s (get_reply e)), fst (snd (get_settle s (get_reply e))),
        TransportGet ax p ps # snd (snd (get_settle s (get_reply e))))"
  by (simp add: get_def split: prod.splits)

lemma is_success_iff: "is_success a \<longleftrightarrow> (\<exists>response. a = FetchSettle (Inr response))"
  by (cases a rule: is_success.cases) simp_all

lemma perform_hasLoadedOnce:
  "hasLoadedOnce (perform a st) = (hasLoadedOnce st \<or> is_success a)"
proof (cases a)
  case (FetchBegin e x c)
  then show ?thesis by (simp add: get_begin_hasLoadedOnce)
next
  case (FetchSettle reply)
  then show ?thesis by (cases reply) (simp_all add: get_settle_hasLoadedOnce)
qed (simp_all add: path_def axios_set_def router_set_def onLoadError_def queryParameters_def
       filterRefs_def parameters_def defaults_def setFilters_def clearFilters_def loading_def
       loaded_def reset_def remove_def setPage_def)

lemma fold_perform_hasLoadedOnce:
  "hasLoadedOnce (fold perform acts st) = (hasLoadedOnce st \<or> (\<exists>a\<in>set acts. is_success a))"
  by (induction acts arbitrary: st) (auto simp: perform_hasLoadedOnce)

lemma perform_flags:
  "\<not> (isLoading st \<and> isUpdating st) \<Longrightarrow>
     \<not> (isLoading (perform a st) \<and> isUpdating (perform a st))"
proof (cases a)
  case (FetchBegin e x c)
  assume "\<not> (isLoading st \<and> isUpdating st)"
  then show ?thesis using get_begin_flags [of st e x c] by (simp add: FetchBegin)
next
  case (FetchSettle reply)
  then show ?thesis by (simp add: get_settle_flags)
qed (auto simp: path_def axios_set_def router_set_def onLoadError_def queryParameters_def
       filterRefs_def parameters_def defaults_def setFilters_def clearFilters_def loading_def
       loaded_def reset_def remove_def setPage_def)

lemma fold_perform_flags:
  "\<not> (isLoading st \<and> isUpdating st) \<Longrightarrow>
     \<not> (isLoading (fold perform acts st) \<and> isUpdating (fold perform acts st))"
proof (induction acts arbitrary: st)
  case Nil
  then show ?case by simp
next
  case (Cons a acts)
  from Cons.prems have "\<not> (isLoading (perform a st) \<and> isUpdating (perform a st))"
    by (rule perform_flags)
  from Cons.IH [OF this] show ?case by simp
qed

lemma perform_untouched:
  "\<not> touches_flags a \<Longrightarrow>
     isLoading (perform a st) = isLoading st \<and> isUpdating (perform a st) = isUpdating st"
  by (cases a)
     (simp_all add: path_def axios_set_def router_set_def onLoadError_def queryParameters_def
       filterRefs_def parameters_def defaults_def setFilters_def clearFilters_def
       remove_def setPage_def)

subsection \<open>Evaluating the examples\<close>

lemmas example_defs =
  run_def configured_def answering_def initial_def path_def axios_set_def router_set_def
  get_def get_begin_def get_settle_def resolvePath_def actualConfig_def routeQueryOf_def
  normalizeParams_def syncQuery_def loading_def loaded_def getAxios_def
  requestParameters_def spread_def buildFilterParameters_def filterSource_def Error_def
  one_item_response_def defaultError_def fallback_message_def permission_message_def
  api_path_missing_def sublist_Cons_right Let_def

subsection \<open>Reset\<close>

text \<open>
  C10. \<open>reset()\<close> empties the items, clears the error, puts the page at 1, the page size
  at 15 and the total at 0, empties the legacy \<open>filterValues\<close> and the active filters,
  and clears both loading flags. Every other field keeps its value: the \<open>filters\<close> map,
  the filter defaults and visibility, \<open>hasLoadedOnce\<close>, and the configuration
  (endpoint, transport, router, handlers, legacy store, bindings), as well as the other
  phase flags and the panel.
\<close>

theorem reset_frame:
  "data (reset st) = [] \<and> error (reset st) = None \<and> currentPage (reset st) = 1 \<and>
   perPage (reset st) = 15 \<and> total_count (reset st) = 0 \<and> filterValues (reset st) = [] \<and>
   activeFilters (reset st) = [] \<and> isLoading (reset st) = False \<and>
   isUpdating (reset st) = False \<and>
   filters (reset st) = filters st \<and> filterDefaults (reset st) = filterDefaults st \<and>
   filterVisibility (reset st) = filterVisibility st \<and>
   hasLoadedOnce (reset st) = hasLoadedOnce st \<and>
   apiPath (reset st) = apiPath st \<and> axiosInstance (reset st) = axiosInstance st \<and>
   routerInstance (reset st) = routerInstance st \<and> errorHandler (reset st) = errorHandler st \<and>
   buildQueryParameters (reset st) = buildQueryParameters st \<and>
   filterAttributes (reset st) = filterAttributes st \<and> bindings (reset st) = bindings st \<and>
   isFiltering (reset st) = isFiltering st \<and> isResetting (reset st) = isResetting st \<and>
   removingFilterKey (reset st) = removingFilterKey st \<and> panelOpen (reset st) = panelOpen st"
  by (simp add: reset_def loaded_def)

subsection \<open>The flag \<open>hasLoadedOnce\<close>\<close>

text \<open>
  C5, as stated, fails: a first fetch whose transport rejects resolves, and without a
  configuration error, yet it leaves \<open>hasLoadedOnce\<close> false.
\<close>

theorem hasLoadedOnce_rejected_fetch_counterexample:
  "fst (get configured (answering (Inl (Error ''Network error''))) NoArg None) = Resolved \<and>
   hasLoadedOnce (fst (snd (get configured (answering (Inl (Error ''Network error'')))
      NoArg None))) = False"
  by (simp add: example_defs)

text \<open>
  C5, amended. In every run of the controller, \<open>hasLoadedOnce\<close> is true exactly when
  some fetch has had its request answered successfully by the transport: it becomes
  true at the first such answer and no later segment (a transport error, a reset)
  makes it false again. For one whole call of \<open>get\<close>: the flag is true afterwards
  exactly when it was true before or the request was issued and answered successfully.
\<close>

theorem hasLoadedOnce_first_success:
  "(hasLoadedOnce (run acts) \<longleftrightarrow> (\<exists>x\<in>set acts. is_success x)) \<and>
   (hasLoadedOnce (fst (snd (get st e a c))) \<longleftrightarrow>
      (hasLoadedOnce st \<or> (is_pending (get_begin st e a c) \<and> \<not> isl (get_reply e))))"
proof
  show "hasLoadedOnce (run acts) \<longleftrightarrow> (\<exists>x\<in>set acts. is_success x)"
    by (simp add: run_def fold_perform_hasLoadedOnce) (simp add: initial_def)
next
  show "hasLoadedOnce (fst (snd (get st e a c))) \<longleftrightarrow>
      (hasLoadedOnce st \<or> (is_pending (get_begin st e a c) \<and> \<not> isl (get_reply e)))"
  proof (cases "get_begin st e a c")
    case (Threw err s)
    with get_begin_hasLoadedOnce [of st e a c] show ?thesis
      by (simp add: get_def)
  next
    case (Pending s ax p ps)
    with get_begin_hasLoadedOnce [of st e a c]
      get_settle_hasLoadedOnce [of s "get_reply e"] show ?thesis
      by (simp add: get_Pending [OF Pending])
  qed
qed

theorem hasLoadedOnce_first_success_witness:
  "hasLoadedOnce (run [SetPath ''/api/items'', SetAxios (Axios 0),
       FetchBegin (answering (Inl Nullish)) NoArg None, FetchSettle (Inl (Error ''Network error'')),
       FetchBegin (answering (Inl Nullish)) NoArg None, FetchSettle (Inr one_item_response),
       FetchBegin (answering (Inl Nullish)) NoArg None, FetchSettle (Inl (Error ''Network error''))])
   \<and> hasLoadedOnce (run [SetPath ''/api/items'', SetAxios (Axios 0),
       FetchBegin (answering (Inl Nullish)) NoArg None, FetchSettle (Inl (Error ''Network error''))])
      = False
   \<and> hasLoadedOnce (fst (snd (get configured (answering (Inr one_item_response)) NoArg None)))"
  using hasLoadedOnce_first_success [of "[SetPath ''/api/items'', SetAxios (Axios 0),
       FetchBegin (answering (Inl Nullish)) NoArg None, FetchSettle (Inl (Error ''Network error'')),
       FetchBegin (answering (Inl Nullish)) NoArg None, FetchSettle (Inr one_item_response),
       FetchBegin (answering (Inl Nullish)) NoArg None, FetchSettle (Inl (Error ''Network error''))]"
       configured "answering (Inr one_item_response)" NoArg None]
    hasLoadedOnce_first_success [of "[SetPath ''/api/items'', SetAxios (Axios 0),
       FetchBegin (answering (Inl Nullish)) NoArg None, FetchSettle (Inl (Error ''Network error''))]"
       configured "answering (Inr one_item_response)" NoArg None]
  by (simp add: example_defs)

subsection \<open>The flags \<open>isLoading\<close> and \<open>isUpdating\<close>\<close>

text \<open>
  C4, as stated, fails: nothing keeps two fetches from overlapping, and when the first
  of them settles it clears both flags while the request of the second is still in
  flight.
\<close>

theorem loading_flags_overlap_counterexample:
  "is_pending (get_begin
      (run [SetPath ''/api/items'', SetAxios (Axios 0),
            FetchBegin (answering (Inr one_item_response)) NoArg None])
      (answering (Inr one_item_response)) NoArg None) \<and>
   isLoading (run [SetPath ''/api/items'', SetAxios (Axios 0),
        FetchBegin (answering (Inr one_item_response)) NoArg None,
        FetchBegin (answering (Inr one_item_response)) NoArg None,
        FetchSettle (Inr one_item_response)]) = False \<and>
   isUpdating (run [SetPath ''/api/items'', SetAxios (Axios 0),
        FetchBegin (answering (Inr one_item_response)) NoArg None,
        FetchBegin (answering (Inr one_item_response)) NoArg None,
        FetchSettle (Inr one_item_response)]) = False"
  by (simp add: example_defs)

text \<open>
  C4, amended. In every run of the controller \<open>isLoading\<close> and \<open>isUpdating\<close> are never
  both true. At the moment a fetch hands its request to the transport exactly one of
  them is true: \<open>isLoading\<close> if no fetch has completed successfully so far,
  \<open>isUpdating\<close> otherwise. Both are false right after the reply of a fetch has been
  handled, whether the transport answered or rejected. In between, the flags keep their
  values through every segment other than the start or the settling of a fetch (this
  one or an overlapping one), \<open>loading()\<close>, \<open>loaded()\<close> and \<open>reset()\<close>.
\<close>

theorem loading_flags:
  "\<not> (isLoading (run acts) \<and> isUpdating (run acts)) \<and>
   (is_pending (get_begin (run acts) e a c) \<longrightarrow>
      (isLoading (started_state (get_begin (run acts) e a c)) \<longleftrightarrow> \<not> (\<exists>x\<in>set acts. is_success x)) \<and>
      (isUpdating (started_state (get_begin (run acts) e a c)) \<longleftrightarrow> (\<exists>x\<in>set acts. is_success x))) \<and>
   isLoading (fst (snd (get_settle st reply))) = False \<and>
   isUpdating (fst (snd (get_settle st reply))) = False \<and>
   (\<not> touches_flags act \<longrightarrow>
      isLoading (perform act st) = isLoading st \<and> isUpdating (perform act st) = isUpdating st)"
proof (intro conjI impI)
  show "\<not> (isLoading (run acts) \<and> isUpdating (run acts))"
    unfolding run_def by (rule fold_perform_flags) (simp add: initial_def)
next
  assume pending: "is_pending (get_begin (run acts) e a c)"
  then obtain s ax p ps where P: "get_begin (run acts) e a c = Pending s ax p ps"
    by (cases "get_begin (run acts) e a c") simp_all
  have h: "hasLoadedOnce (run acts) \<longleftrightarrow> (\<exists>x\<in>set acts. is_success x)"
    by (simp add: run_def fold_perform_hasLoadedOnce) (simp add: initial_def)
  from get_begin_Pending [OF P] h
  show "isLoading (started_state (get_begin (run acts) e a c)) \<longleftrightarrow> \<not> (\<exists>x\<in>set acts. is_success x)"
    by (auto simp: P loading_fields syncQuery_keeps)
  from get_begin_Pending [OF P] h
  show "isUpdating (started_state (get_begin (run acts) e a c)) \<longleftrightarrow> (\<exists>x\<in>set acts. is_success x)"
    by (auto simp: P loading_fields syncQuery_keeps)
next
  show "isLoading (fst (snd (get_settle st reply))) = False"
    by (simp add: get_settle_flags)
  show "isUpdating (fst (snd (get_settle st reply))) = False"
    by (simp add: get_settle_flags)
next
  assume "\<not> touches_flags act"
  then show "isLoading (perform act st) = isLoading st"
    and "isUpdating (perform act st) = isUpdating st"
    using perform_untouched [of act st] by simp_all
qed

theorem loading_flags_witness:
  "is_pending (get_begin (run [SetPath ''/api/items'', SetAxios (Axios 0)])
      (answering (Inr one_item_response)) NoArg None) \<and>
   isLoading (started_state (get_begin (run [SetPath ''/api/items'', SetAxios (Axios 0)])
      (answering (Inr one_item_response)) NoArg None)) \<and>
   isUpdating (started_state (get_begin (run [SetPath ''/api/items'', SetAxios (Axios 0)])
      (answering (Inr one_item_response)) NoArg None)) = False \<and>
   touches_flags (Remove (Num 1) ''id'') = False \<and>
   isLoading (perform (Remove (Num 1) ''id'') (loading initial))"
  using loading_flags [of "[SetPath ''/api/items'', SetAxios (Axios 0)]"
      "answering (Inr one_item_response)" NoArg None initial "Inr one_item_response"
      "Remove (Num 1) ''id''"]
    loading_flags [of "[SetPath ''/api/items'', SetAxios (Axios 0)]"
      "answering (Inr one_item_response)" NoArg None "loading initial" "Inr one_item_response"
      "Remove (Num 1) ''id''"]
  by (simp add: example_defs)

subsection \<open>A fetch whose transport rejects\<close>

lemma get_settle_events:
  "ev \<in> set (snd (snd (get_settle s reply))) \<Longrightarrow> \<exists>err. ev = ConsoleError err"
  by (cases reply) (auto simp: get_settle_def Let_def split: if_splits)

lemma get_begin_getAxios:
  assumes "get_begin st e a c = Pending s ax p ps"
  shows "getAxios st e = Inr ax"
proof -
  from get_begin_Pending [OF assms] obtain ps0 where
    s: "s = (loading (syncQuery (routeQueryOf st e (actualConfig a c)) st))\<lparr>error := None\<rparr>"
    and ax: "getAxios s e = Inr ax" by blast
  have "axiosInstance s = axiosInstance st"
    by (simp add: s loading_fields syncQuery_keeps)
  with ax show ?thesis by (simp add: getAxios_def)
qed

text \<open>
  C2, amended. When the transport rejects the request of a fetch with a value other
  than \<open>null\<close> or \<open>undefined\<close> that is not an \<open>Error\<close> whose message contains
  \<open>Axios instance not configured\<close>, the promise of the fetch resolves. The default
  message is the fixed permission message when the rejection carries the status 403,
  else the \<open>response.data.message\<close> of the server when it is present and not empty,
  else the generic fallback; the stored \<open>error\<close> is what the configured error handler
  makes of this default and the status (the default itself if there is no handler).
  The rejection is logged.
\<close>

theorem get_transport_rejection:
  assumes "is_pending (get_begin st e a c)"
    and "get_reply e = Inl (Thrown is_Error msg resp)"
    and "\<not> (is_Error \<and> sublist ''Axios instance not configured'' msg)"
  shows "fst (get st e a c) = Resolved \<and>
         error (fst (snd (get st e a c))) =
           (let code = (case resp of None \<Rightarrow> None | Some r \<Rightarrow> status r);
                message = (case resp of None \<Rightarrow> None | Some r \<Rightarrow> data_message r);
                default = (if code = Some 403 then permission_message
                           else case message of
                                  None \<Rightarrow> fallback_message
                                | Some m \<Rightarrow> if m = [] then fallback_message else m)
            in case errorHandler st of
                 None \<Rightarrow> Some default
               | Some handler \<Rightarrow> handler default code) \<and>
         (\<exists>ax p ps. snd (snd (get st e a c)) =
            [TransportGet ax p ps, ConsoleError (Thrown is_Error msg resp)])"
proof -
  from assms(1) obtain s ax p ps where P: "get_begin st e a c = Pending s ax p ps"
    by (cases "get_begin st e a c") simp_all
  from get_begin_Pending [OF P] have h: "errorHandler s = errorHandler st"
    by (auto simp: loading_fields syncQuery_keeps)
  have settle: "get_settle s (get_reply e) =
      (Resolved,
       loaded (s\<lparr>error := (case errorHandler st of
                  Some handler \<Rightarrow> handler (defaultError (Thrown is_Error msg resp))
                                    (statusCode (Thrown is_Error msg resp))
                | None \<Rightarrow> Some (defaultError (Thrown is_Error msg resp)))\<rparr>),
       [ConsoleError (Thrown is_Error msg resp)])"
    using assms(2,3) by (simp add: get_settle_def h)
  have code: "statusCode (Thrown is_Error msg resp) = (case resp of None \<Rightarrow> None | Some r \<Rightarrow> status r)"
    by (cases resp) simp_all
  have dflt: "defaultError (Thrown is_Error msg resp) =
      (if (case resp of None \<Rightarrow> None | Some r \<Rightarrow> status r) = Some 403 then permission_message
       else case (case resp of None \<Rightarrow> None | Some r \<Rightarrow> data_message r) of
              None \<Rightarrow> fallback_message
            | Some m \<Rightarrow> if m = [] then fallback_message else m)"
    by (cases resp) (simp_all add: defaultError_def)
  show ?thesis
    unfolding get_Pending [OF P] settle
    by (simp add: loaded_fields code dflt Let_def split: option.splits)
qed

theorem get_transport_rejection_witness:
  "is_pending (get_begin configured
      (answering (Inl (Thrown False [] (Some \<lparr>status = Some 403, data_message = None\<rparr>))))
      NoArg None) \<and>
   fst (get configured
      (answering (Inl (Thrown False [] (Some \<lparr>status = Some 403, data_message = None\<rparr>))))
      NoArg None) = Resolved \<and>
   error (fst (snd (get configured
      (answering (Inl (Thrown False [] (Some \<lparr>status = Some 403, data_message = None\<rparr>))))
      NoArg None))) = Some ''You do not have permission to access this resource.''"
  using get_transport_rejection [of configured
      "answering (Inl (Thrown False [] (Some \<lparr>status = Some 403, data_message = None\<rparr>)))"
      NoArg None False "[]" "Some \<lparr>status = Some 403, data_message = None\<rparr>"]
  by (simp add: example_defs)

text \<open>
  C2, as stated, fails. A rejection of the transport with an \<open>Error\<close> whose message
  contains \<open>Axios instance not configured\<close> is taken for a configuration error and
  thrown again, so the promise of the fetch rejects. And a \<open>response.data.message\<close> that
  is present but empty gives way to the generic fallback.
\<close>

theorem get_transport_rejection_counterexample:
  "fst (get configured (answering (Inl (Error ''Axios instance not configured''))) NoArg None)
     = Rejected (Error ''Axios instance not configured'') \<and>
   error (fst (snd (get configured
      (answering (Inl (Thrown False [] (Some \<lparr>status = Some 500, data_message = Some []\<rparr>))))
      NoArg None))) = Some ''Failed to load data. Please try again later.''"
  by (simp add: example_defs)

subsection \<open>The endpoint of a fetch\<close>

text \<open>
  C7. The endpoint a fetch acts on is the string given as first argument if there is
  one, else the preconfigured endpoint (when the first argument is an options object,
  and when there is no argument). If there is none by these rules, or it is the
  empty string, the fetch fails with the configuration error: it is thrown, the
  controller is unchanged (nothing is stored in \<open>error\<close>) and no request is made.
  Otherwise every request of the fetch goes to that endpoint, and a request is made
  as soon as a transport is available and the params normalise.
\<close>

theorem get_resolves_endpoint:
  assumes "endpoint = (case a of PathArg p \<Rightarrow> Some p | ConfigArg cfg \<Rightarrow> apiPath st | NoArg \<Rightarrow> apiPath st)"
  shows "(endpoint = None \<or> endpoint = Some [] \<longrightarrow>
            get st e a c = (Rejected (Error api_path_missing), st, [])) \<and>
         (\<forall>p. endpoint = Some p \<and> p \<noteq> [] \<longrightarrow>
            (\<forall>ax q ps. TransportGet ax q ps \<in> set (snd (snd (get st e a c))) \<longrightarrow> q = p) \<and>
            (\<forall>ax ps0. getAxios st e = Inr ax \<and>
                normalizeParams e
                  (case a of PathArg x \<Rightarrow> (case c of None \<Rightarrow> None | Some cfg \<Rightarrow> params cfg)
                   | ConfigArg cfg \<Rightarrow> params cfg | NoArg \<Rightarrow> None) = Inr ps0 \<longrightarrow>
                (\<exists>ps evs. snd (snd (get st e a c)) = TransportGet ax p ps # evs)))"
proof (intro conjI allI impI)
  assume "endpoint = None \<or> endpoint = Some []"
  with assms have "resolvePath st a = None \<or> resolvePath st a = Some []"
    by (simp add: resolvePath_def)
  then show "get st e a c = (Rejected (Error api_path_missing), st, [])"
    by (auto simp: get_def get_begin_def)
next
  fix p ax q ps
  assume ep: "endpoint = Some p \<and> p \<noteq> []"
    and ev: "TransportGet ax q ps \<in> set (snd (snd (get st e a c)))"
  from ep assms have r: "resolvePath st a = Some p" by (simp add: resolvePath_def)
  show "q = p"
  proof (cases "get_begin st e a c")
    case (Threw err s)
    with ev show ?thesis by (simp add: get_Threw)
  next
    case (Pending s ax' p' ps')
    from get_begin_Pending [OF Pending] r have "p' = p" by auto
    with ev get_settle_events [of "TransportGet ax q ps" s "get_reply e"] show ?thesis
      by (auto simp: get_Pending [OF Pending])
  qed
next
  fix p ax ps0
  assume ep: "endpoint = Some p \<and> p \<noteq> []"
    and ok: "getAxios st e = Inr ax \<and>
                normalizeParams e
                  (case a of PathArg x \<Rightarrow> (case c of None \<Rightarrow> None | Some cfg \<Rightarrow> params cfg)
                   | ConfigArg cfg \<Rightarrow> params cfg | NoArg \<Rightarrow> None) = Inr ps0"
  from ep assms have r: "resolvePath st a = Some p" by (simp add: resolvePath_def)
  have n: "normalizeParams e (case actualConfig a c of None \<Rightarrow> None | Some cfg \<Rightarrow> params cfg) = Inr ps0"
    using ok by (cases a) (simp_all add: actualConfig_def)
  let ?s = "(loading (syncQuery (routeQueryOf st e (actualConfig a c)) st))\<lparr>error := None\<rparr>"
  have "axiosInstance ?s = axiosInstance st"
    by (simp add: loading_fields syncQuery_keeps)
  with ok have "getAxios ?s e = Inr ax" by (simp add: getAxios_def)
  with r n ep have "get_begin st e a c = Pending ?s ax p (requestParameters ?s ps0)"
    by (simp add: get_begin_def Let_def)
  from get_Pending [OF this]
  show "\<exists>ps evs. snd (snd (get st e a c)) = TransportGet ax p ps # evs" by simp
qed

theorem get_resolves_endpoint_witness:
  "snd (snd (get configured (answering (Inr one_item_response)) (PathArg ''/api/users'') None))
     = [TransportGet (Axios 0) ''/api/users'' [(''page'', PNum 1), (''per_page'', PNum 15)]] \<and>
   get (axios_set (Axios 0) initial) (answering (Inr one_item_response)) NoArg None
     = (Rejected (Error api_path_missing), axios_set (Axios 0) initial, [])"
  using get_resolves_endpoint [where endpoint = "Some ''/api/users''"
      and a = "PathArg ''/api/users''" and st = configured
      and e = "answering (Inr one_item_response)" and c = None]
    get_resolves_endpoint [where endpoint = None and a = NoArg
      and st = "axios_set (Axios 0) initial"
      and e = "answering (Inr one_item_response)" and c = None]
  by (simp add: example_defs)


subsection \<open>A delete whose transport rejects\<close>




subsection \<open>Synchronising the filters from the query\<close>








subsection \<open>A delete whose transport succeeds\<close>













end
